theory Spec2Isabelle
  imports Main "HOL-Library.Sublist"
begin

section \<open>Text primitives\<close>

text \<open>
  Python strings are sequences of code points. They are modelled as \<open>string\<close>, each
  \<open>char\<close> standing for the code point \<open>of_char c\<close>, so the model covers text whose
  code points are below 256 (ASCII and Latin-1). The character classes below are
  Python's \<open>str.lower\<close>, \<open>str.isspace\<close> and \<open>str.isalnum\<close> on that range.
\<close>

definition in_range :: "nat \<Rightarrow> nat \<Rightarrow> nat \<Rightarrow> bool" where
  "in_range lo hi n = (lo \<le> n \<and> n \<le> hi)"

definition lower_char :: "char \<Rightarrow> char" where
  "lower_char c =
     (let n = (of_char c :: nat)
      in if in_range 65 90 n \<or> in_range 192 214 n \<or> in_range 216 222 n
         then char_of (n + 32) else c)"

definition lower :: "string \<Rightarrow> string" where
  "lower s = map lower_char s"

definition isspace :: "char \<Rightarrow> bool" where
  "isspace c =
     (let n = (of_char c :: nat)
      in in_range 9 13 n \<or> in_range 28 32 n \<or> n = 133 \<or> n = 160)"

definition isalnum :: "char \<Rightarrow> bool" where
  "isalnum c =
     (let n = (of_char c :: nat)
      in in_range 48 57 n \<or> in_range 65 90 n \<or> in_range 97 122 n
         \<or> n = 170 \<or> n = 178 \<or> n = 179 \<or> n = 181 \<or> in_range 185 186 n
         \<or> in_range 188 190 n \<or> in_range 192 214 n \<or> in_range 216 246 n
         \<or> in_range 248 255 n)"

text \<open>\<open>sub in s\<close>: \<open>sub\<close> occurs in \<open>s\<close> as a contiguous run of characters.\<close>

fun contains :: "string \<Rightarrow> string \<Rightarrow> bool" where
  "contains sub [] = (sub = [])"
| "contains sub (c # cs) = (prefix sub (c # cs) \<or> contains sub cs)"

text \<open>
  \<open>s.split()\<close> without arguments: the maximal runs of non-whitespace characters, in
  order; \<open>cur\<close> is the run being read.
\<close>

fun split_acc :: "string \<Rightarrow> string \<Rightarrow> string list" where
  "split_acc cur [] = (if cur = [] then [] else [cur])"
| "split_acc cur (c # cs) =
     (if isspace c then (if cur = [] then split_acc [] cs else cur # split_acc [] cs)
      else split_acc (cur @ [c]) cs)"

definition str_split :: "string \<Rightarrow> string list" where
  "str_split s = split_acc [] s"

section \<open>Relevance scoring\<close>

definition event_terms :: "string list" where
  "event_terms = [''festival'', ''event'', ''celebration'', ''party'', ''concert'',
                  ''show'', ''tour'', ''live'', ''performance'']"

definition exact_match_points :: "string \<Rightarrow> string \<Rightarrow> int" where
  "exact_match_points title_lower keyword_lower =
     (if contains keyword_lower title_lower then 100 else 0)"

definition word_match_points :: "string \<Rightarrow> string \<Rightarrow> int" where
  "word_match_points title_lower keyword_lower =
     fold (\<lambda>word score. if contains word title_lower then score + 35 else score)
          (str_split keyword_lower) 0"

definition event_bonus_points :: "string \<Rightarrow> int" where
  "event_bonus_points title_lower =
     (if list_ex (\<lambda>term. contains term title_lower) event_terms then 20 else 0)"

text \<open>The value of \<open>score\<close> when the final statement of the function is reached.\<close>

definition unclamped_score :: "string \<Rightarrow> string \<Rightarrow> int" where
  "unclamped_score title keyword =
     (let title_lower = lower title;
          keyword_lower = lower keyword;
          score = 0;
          score = (if contains keyword_lower title_lower then score + 100 else score);
          score = fold (\<lambda>word score. if contains word title_lower then score + 35 else score)
                       (str_split keyword_lower) score;
          score = (if list_ex (\<lambda>term. contains term title_lower) event_terms
                   then score + 20 else score)
      in score)"

definition calculate_relevance_score :: "string \<Rightarrow> string \<Rightarrow> int" where
  "calculate_relevance_score title keyword =
     max 0 (min (unclamped_score title keyword) 100)"

section \<open>Numbers, dates and times\<close>

datatype py_error = ValueError | OverflowError | IndexError | Unsupported

definition digit_char :: "nat \<Rightarrow> char" where
  "digit_char d = char_of (48 + d)"

fun str_of_nat :: "nat \<Rightarrow> string" where
  "str_of_nat n =
     (if n < 10 then [digit_char n] else str_of_nat (n div 10) @ [digit_char (n mod 10)])"

text \<open>The \<open>%02d\<close>-style fields of \<open>strftime\<close>: decimal, zero-padded on the left.\<close>

definition zero_pad :: "nat \<Rightarrow> nat \<Rightarrow> string" where
  "zero_pad width n =
     (let ds = str_of_nat n in replicate (width - length ds) CHR ''0'' @ ds)"

definition digit_val :: "char \<Rightarrow> nat option" where
  "digit_val c =
     (let n = (of_char c :: nat) in if in_range 48 57 n then Some (n - 48) else None)"

fun digits_val :: "nat \<Rightarrow> string \<Rightarrow> nat option" where
  "digits_val acc [] = Some acc"
| "digits_val acc (c # cs) =
     (case digit_val c of None \<Rightarrow> None | Some d \<Rightarrow> digits_val (acc * 10 + d) cs)"

text \<open>A naive \<open>datetime\<close> (no time zone).\<close>

record datetime =
  year :: nat
  month :: nat
  day :: nat
  hour :: nat
  minute :: nat
  second :: nat
  microsecond :: nat

definition is_leap :: "nat \<Rightarrow> bool" where
  "is_leap y = (y mod 4 = 0 \<and> (y mod 100 \<noteq> 0 \<or> y mod 400 = 0))"

definition days_in_month :: "nat \<Rightarrow> nat \<Rightarrow> nat" where
  "days_in_month y m =
     (if m = 2 then (if is_leap y then 29 else 28)
      else if m = 4 \<or> m = 6 \<or> m = 9 \<or> m = 11 then 30 else 31)"

text \<open>
  \<open>datetime.fromisoformat\<close> on a calendar date \<open>YYYY-MM-DD\<close>: midnight of that day, or
  \<open>ValueError\<close> when the text has that length but is not a valid date. The other
  formats the library accepts (a time of day, an offset) are outside the model and
  reported as \<open>Unsupported\<close>.
\<close>

definition fromisoformat :: "string \<Rightarrow> py_error + datetime" where
  "fromisoformat s =
     (if length s \<noteq> 10 then Inl Unsupported
      else if s ! 4 \<noteq> CHR ''-'' \<or> s ! 7 \<noteq> CHR ''-'' then Inl ValueError
      else
        (case (digits_val 0 (take 4 s), digits_val 0 (take 2 (drop 5 s)),
               digits_val 0 (take 2 (drop 8 s))) of
           (Some y, Some m, Some d) \<Rightarrow>
             if 1 \<le> y \<and> 1 \<le> m \<and> m \<le> 12 \<and> 1 \<le> d \<and> d \<le> days_in_month y m
             then Inr \<lparr>year = y, month = m, day = d, hour = 0, minute = 0, second = 0,
                       microsecond = 0\<rparr>
             else Inl ValueError
         | _ \<Rightarrow> Inl ValueError))"

text \<open>
  \<open>dt + timedelta(days=1)\<close>: the same time of day on the next calendar day;
  \<open>OverflowError\<close> past the last day of year 9999.
\<close>

definition add_one_day :: "datetime \<Rightarrow> py_error + datetime" where
  "add_one_day dt =
     (if day dt < days_in_month (year dt) (month dt) then Inr (dt\<lparr>day := day dt + 1\<rparr>)
      else if month dt < 12 then Inr (dt\<lparr>month := month dt + 1, day := 1\<rparr>)
      else if year dt < 9999 then Inr (dt\<lparr>year := year dt + 1, month := 1, day := 1\<rparr>)
      else Inl OverflowError)"


text \<open>\<open>dt.strftime("%Y%m%d_%H%M%S")\<close> and \<open>dt.strftime("%Y-%m-%d")\<close>.\<close>

definition strftime_compact :: "datetime \<Rightarrow> string" where
  "strftime_compact dt =
     zero_pad 4 (year dt) @ zero_pad 2 (month dt) @ zero_pad 2 (day dt) @ ''_''
       @ zero_pad 2 (hour dt) @ zero_pad 2 (minute dt) @ zero_pad 2 (second dt)"

definition strftime_date :: "datetime \<Rightarrow> string" where
  "strftime_date dt =
     zero_pad 4 (year dt) @ ''-'' @ zero_pad 2 (month dt) @ ''-'' @ zero_pad 2 (day dt)"

text \<open>\<open>s.split(sep)\<close> for a one-character separator: empty fields are kept.\<close>

fun split_on_acc :: "char \<Rightarrow> string \<Rightarrow> string \<Rightarrow> string list" where
  "split_on_acc sep cur [] = [cur]"
| "split_on_acc sep cur (c # cs) =
     (if c = sep then cur # split_on_acc sep [] cs else split_on_acc sep (cur @ [c]) cs)"

definition split_on :: "char \<Rightarrow> string \<Rightarrow> string list" where
  "split_on sep s = split_on_acc sep [] s"

definition index :: "'a list \<Rightarrow> nat \<Rightarrow> py_error + 'a" where
  "index xs i = (if i < length xs then Inr (xs ! i) else Inl IndexError)"

text \<open>The date argument of the command line, as the entry point reads it.\<close>

definition parse_date_input :: "string \<Rightarrow> py_error + (datetime \<times> datetime)" where
  "parse_date_input date =
     (if CHR '','' \<in> set date then
        (case index (split_on CHR '','' date) 0 of
           Inl e \<Rightarrow> Inl e
         | Inr s0 \<Rightarrow>
            (case fromisoformat s0 of
               Inl e \<Rightarrow> Inl e
             | Inr start \<Rightarrow>
                (case index (split_on CHR '','' date) 1 of
                   Inl e \<Rightarrow> Inl e
                 | Inr s1 \<Rightarrow>
                    (case fromisoformat s1 of
                       Inl e \<Rightarrow> Inl e
                     | Inr end \<Rightarrow> Inr (start, end)))))
      else
        (case fromisoformat date of
           Inl e \<Rightarrow> Inl e
         | Inr start \<Rightarrow>
            (case add_one_day start of
               Inl e \<Rightarrow> Inl e
             | Inr end \<Rightarrow> Inr (start, end))))"

section \<open>Output file name\<close>

definition rstrip :: "string \<Rightarrow> string" where
  "rstrip s = rev (dropWhile isspace (rev s))"

definition replace_char :: "char \<Rightarrow> char \<Rightarrow> string \<Rightarrow> string" where
  "replace_char old new s = map (\<lambda>c. if c = old then new else c) s"

definition create_output_filename :: "string \<Rightarrow> datetime \<Rightarrow> string" where
  "create_output_filename keyword current_time =
     (let search_name =
            rstrip (filter (\<lambda>c. isalnum c \<or> c \<in> {CHR '' '', CHR ''-'', CHR ''_''}) keyword);
          search_name = lower (replace_char CHR '' '' CHR ''_'' search_name);
          date_time = strftime_compact current_time
      in search_name @ ''_'' @ date_time @ ''_search_output.json'')"


section \<open>Event-listing adapter\<close>

text \<open>
  The network and the HTML parser are the adapter's environment. A request either
  answers 404, fails (a transport error, another error status, an unparsable page), or
  gives a page; a page answers each CSS selector with the cards it matches and lists
  the hyperlinks whose target contains \<open>/e/\<close>. A card carries the texts the adapter
  reads from it, or the extraction of that card raised.
\<close>

datatype 'a extraction = Extracted 'a | ExtractRaised string

record raw_card =
  card_title :: string
  card_date_text :: string
  card_location :: string
  card_href :: string

record raw_link =
  link_href :: string
  link_text :: string

record page =
  select :: "string \<Rightarrow> raw_card extraction list"
  event_links :: "raw_link extraction list"

datatype http_outcome = NotFound | RequestFailed string | Page page

record event_data =
  ev_title :: string
  ev_date_text :: string
  ev_location :: string
  ev_link :: string
  ev_relevance_score :: int
  ev_source :: string

text \<open>The dictionary the adapter returns; a key that is not set is \<open>None\<close>.\<close>

record eventbrite_result =
  er_count :: nat
  er_events :: "event_data list"
  er_source :: "string option"
  er_selector_used :: "string option"
  er_total_events_found :: "nat option"
  er_relevance_threshold :: "int option"
  er_error :: "string option"

definition selectors :: "string list" where
  "selectors =
     [''[data-testid='' @ [CHR 39] @ ''search-result-event-card'' @ [CHR 39] @ '']'',
      ''.search-event-card-wrapper'',
      ''.eds-event-card-content__primary-content'',
      ''.search-main-content__events-list-item'',
      ''[data-spec='' @ [CHR 39] @ ''search-result'' @ [CHR 39] @ '']'',
      ''.search-results-panel-content article'',
      ''.event-card'',
      ''[class*='' @ [CHR 39] @ ''event-card'' @ [CHR 39] @ '']'',
      ''.discover-search-desktop-card'',
      ''.eds-card-content'']"

definition card_event :: "string \<Rightarrow> raw_card \<Rightarrow> event_data" where
  "card_event keyword c =
     (let title = card_title c;
          link = card_href c;
          link = (if link \<noteq> [] \<and> \<not> prefix ''http'' link
                  then ''https://www.eventbrite.com'' @ link else link);
          relevance_score = calculate_relevance_score title keyword
      in \<lparr>ev_title = take 200 title,
          ev_date_text = take 100 (card_date_text c),
          ev_location = take 100 (card_location c),
          ev_link = link,
          ev_relevance_score = relevance_score,
          ev_source = ''eventbrite_scrape''\<rparr>)"

fun card_events :: "string \<Rightarrow> raw_card extraction list \<Rightarrow> event_data list" where
  "card_events keyword [] = []"
| "card_events keyword (Extracted c # cards) =
     card_event keyword c # card_events keyword cards"
| "card_events keyword (ExtractRaised e # cards) = card_events keyword cards"

definition link_event :: "string \<Rightarrow> nat \<Rightarrow> raw_link \<Rightarrow> event_data" where
  "link_event keyword k l =
     (let href = link_href l;
          href = (if \<not> prefix ''http'' href
                  then ''https://www.eventbrite.com'' @ href else href);
          title = (if link_text l \<noteq> [] then link_text l else ''Event '' @ str_of_nat (k + 1));
          relevance_score = calculate_relevance_score title keyword
      in \<lparr>ev_title = take 200 title,
          ev_date_text = [],
          ev_location = [],
          ev_link = href,
          ev_relevance_score = relevance_score,
          ev_source = ''eventbrite_links''\<rparr>)"

fun link_events :: "string \<Rightarrow> nat \<Rightarrow> raw_link extraction list \<Rightarrow> event_data list" where
  "link_events keyword k [] = []"
| "link_events keyword k (Extracted l # ls) =
     link_event keyword k l # link_events keyword (k + 1) ls"
| "link_events keyword k (ExtractRaised e # ls) = link_events keyword (k + 1) ls"

text \<open>
  What one page yields before the relevance filter: the events list, the source tag and
  the selector that matched (none for the hyperlink fallback).
\<close>

type_synonym extracted = "event_data list \<times> string \<times> string option"

fun try_selectors :: "page \<Rightarrow> string \<Rightarrow> string list \<Rightarrow> extracted option" where
  "try_selectors pg keyword [] = None"
| "try_selectors pg keyword (selector # rest) =
     (let cards = select pg selector
      in if cards \<noteq> [] then Some (card_events keyword cards, ''eventbrite_scrape'', Some selector)
         else try_selectors pg keyword rest)"

definition scrape_page :: "page \<Rightarrow> string \<Rightarrow> extracted option" where
  "scrape_page pg keyword =
     (case try_selectors pg keyword selectors of
        Some x \<Rightarrow> Some x
      | None \<Rightarrow>
          if event_links pg \<noteq> []
          then Some (link_events keyword 0 (event_links pg), ''eventbrite_links'', None)
          else None)"

fun try_urls :: "(string \<Rightarrow> http_outcome) \<Rightarrow> string \<Rightarrow> string list \<Rightarrow> extracted option" where
  "try_urls get keyword [] = None"
| "try_urls get keyword (url # urls) =
     (case get url of
        NotFound \<Rightarrow> try_urls get keyword urls
      | RequestFailed e \<Rightarrow> try_urls get keyword urls
      | Page pg \<Rightarrow>
          (case scrape_page pg keyword of
             Some x \<Rightarrow> Some x
           | None \<Rightarrow> try_urls get keyword urls))"

definition urls :: "string \<Rightarrow> string list" where
  "urls keyword =
     (let q = replace_char CHR '' '' CHR ''+'' keyword
      in [''https://www.eventbrite.co.uk/d/united-kingdom/'' @ q @ ''/'',
          ''https://www.eventbrite.co.uk/search?q='' @ q @ ''&location=United+Kingdom''])"

definition fetch_eventbrite_scrape :: "(string \<Rightarrow> http_outcome) \<Rightarrow> string \<Rightarrow> eventbrite_result" where
  "fetch_eventbrite_scrape get keyword =
     (case try_urls get keyword (urls keyword) of
        Some (events, source, selector) \<Rightarrow>
          (let high_relevance_events = filter (\<lambda>e. ev_relevance_score e \<ge> 90) events
           in \<lparr>er_count = length high_relevance_events,
               er_events = high_relevance_events,
               er_source = Some source,
               er_selector_used = selector,
               er_total_events_found = Some (length events),
               er_relevance_threshold = Some 90,
               er_error = None\<rparr>)
      | None \<Rightarrow>
          \<lparr>er_count = 0,
           er_events = [],
           er_source = Some ''eventbrite_scrape'',
           er_selector_used = None,
           er_total_events_found = None,
           er_relevance_threshold = None,
           er_error = Some ''No events found''\<rparr>)"

definition fetch_eventbrite_count :: "(string \<Rightarrow> http_outcome) \<Rightarrow> string \<Rightarrow> eventbrite_result" where
  "fetch_eventbrite_count get keyword = fetch_eventbrite_scrape get keyword"

text \<open>The \<open>events\<close> list of the attempt that succeeded, before the relevance filter.\<close>

definition extracted_events :: "(string \<Rightarrow> http_outcome) \<Rightarrow> string \<Rightarrow> event_data list" where
  "extracted_events get keyword =
     (case try_urls get keyword (urls keyword) of
        Some (events, source, selector) \<Rightarrow> events
      | None \<Rightarrow> [])"

section \<open>Discussion adapter\<close>

text \<open>
  The environment of the adapter: the three credentials as \<open>os.getenv\<close> gives them, whether
  the client library was imported, and what connecting and searching the forums for a
  keyword does: it returns the submissions, newest first, or raises. Timestamps are
  whole epoch seconds. The \<open>created_date\<close> text of a post, which depends on the local
  time zone, is left out of the post record, and so are the log lines, among them the
  two that format the bounds as local times before the search is tried.
\<close>

datatype 'a outcome = Returned 'a | Raised string

record submission =
  sub_title :: string
  sub_subreddit :: string
  sub_author :: "string option"
  sub_score :: int
  sub_num_comments :: int
  sub_created_utc :: int
  sub_permalink :: string

record post =
  post_title :: string
  post_subreddit :: string
  post_author :: string
  post_score :: int
  post_num_comments :: int
  post_created_utc :: int
  post_url :: string
  post_relevance_score :: int
  post_in_date_range :: bool

record reddit_result =
  rr_count :: nat
  rr_posts :: "post list"
  rr_in_date_range :: "nat option"
  rr_source :: "string option"
  rr_total_posts_found :: "nat option"
  rr_posts_in_date_range :: "nat option"
  rr_relevance_threshold :: "int option"
  rr_error :: "string option"

record reddit_env =
  reddit_client_id :: "string option"
  reddit_client_secret :: "string option"
  reddit_user_agent :: "string option"
  praw :: bool
  search :: "string \<Rightarrow> submission list outcome"

text \<open>Truth value of an optional string: \<open>None\<close> and the empty string are false.\<close>

definition truthy :: "string option \<Rightarrow> bool" where
  "truthy v = (case v of None \<Rightarrow> False | Some s \<Rightarrow> s \<noteq> [])"

definition detailed_post :: "string \<Rightarrow> int \<Rightarrow> int \<Rightarrow> submission \<Rightarrow> post" where
  "detailed_post keyword start_ts end_ts sub =
     (let relevance_score = calculate_relevance_score (sub_title sub) keyword
      in \<lparr>post_title = sub_title sub,
          post_subreddit = sub_subreddit sub,
          post_author = (case sub_author sub of Some a \<Rightarrow> a | None \<Rightarrow> ''[deleted]''),
          post_score = sub_score sub,
          post_num_comments = sub_num_comments sub,
          post_created_utc = sub_created_utc sub,
          post_url = ''https://reddit.com'' @ sub_permalink sub,
          post_relevance_score = relevance_score,
          post_in_date_range = (start_ts \<le> sub_created_utc sub \<and> sub_created_utc sub \<le> end_ts)\<rparr>)"

definition in_range_submissions :: "int \<Rightarrow> int \<Rightarrow> submission list \<Rightarrow> submission list" where
  "in_range_submissions start_ts end_ts submissions =
     filter (\<lambda>submission. start_ts \<le> sub_created_utc submission
                          \<and> sub_created_utc submission \<le> end_ts) submissions"

definition detailed_posts :: "string \<Rightarrow> int \<Rightarrow> int \<Rightarrow> submission list \<Rightarrow> post list" where
  "detailed_posts keyword start_ts end_ts submissions =
     (let in_range = in_range_submissions start_ts end_ts submissions;
          posts_to_return = (if in_range \<noteq> [] then in_range else take 10 submissions)
      in map (detailed_post keyword start_ts end_ts) posts_to_return)"

definition no_api_result :: reddit_result where
  "no_api_result =
     \<lparr>rr_count = 0, rr_posts = [], rr_in_date_range = Some 0, rr_source = Some ''no_api'',
      rr_total_posts_found = None, rr_posts_in_date_range = None,
      rr_relevance_threshold = None, rr_error = None\<rparr>"

definition fetch_reddit_mentions :: "reddit_env \<Rightarrow> string \<Rightarrow> int \<Rightarrow> int \<Rightarrow> reddit_result" where
  "fetch_reddit_mentions env keyword start_ts end_ts =
     (if truthy (reddit_client_id env) \<and> truthy (reddit_client_secret env) \<and> praw env then
        (case search env keyword of
           Raised e \<Rightarrow> no_api_result
         | Returned submissions \<Rightarrow>
            (let filtered_count = length (in_range_submissions start_ts end_ts submissions);
                 posts = detailed_posts keyword start_ts end_ts submissions
             in if filtered_count = 0 then
                  \<lparr>rr_count = 0, rr_posts = [], rr_in_date_range = Some 0,
                   rr_source = Some ''reddit_api'',
                   rr_total_posts_found = Some (length posts),
                   rr_posts_in_date_range = None,
                   rr_relevance_threshold = Some 90, rr_error = None\<rparr>
                else
                  (let posts_in_range = filter post_in_date_range posts;
                       high_relevance_posts_in_range =
                         filter (\<lambda>p. post_relevance_score p \<ge> 90) posts_in_range
                   in \<lparr>rr_count = length high_relevance_posts_in_range,
                       rr_posts = high_relevance_posts_in_range,
                       rr_in_date_range = Some (length high_relevance_posts_in_range),
                       rr_source = Some ''reddit_api'',
                       rr_total_posts_found = Some (length posts),
                       rr_posts_in_date_range = Some (length posts_in_range),
                       rr_relevance_threshold = Some 90, rr_error = None\<rparr>)))
      else no_api_result)"

text \<open>
  The detailed records the adapter builds in a call (\<open>detailed_posts\<close> in the source):
  none when the search is not made or raises.
\<close>

definition built_posts :: "reddit_env \<Rightarrow> string \<Rightarrow> int \<Rightarrow> int \<Rightarrow> post list" where
  "built_posts env keyword start_ts end_ts =
     (if truthy (reddit_client_id env) \<and> truthy (reddit_client_secret env) \<and> praw env then
        (case search env keyword of
           Raised e \<Rightarrow> []
         | Returned submissions \<Rightarrow> detailed_posts keyword start_ts end_ts submissions)
      else [])"

section \<open>Aggregation\<close>

text \<open>
  What a call of an adapter gives the entry point: a value of the adapter's return type,
  or an exception. The event-listing adapter returns a dictionary; the discussion
  adapter is declared to return a dictionary or an integer; the trends adapter a
  dictionary, an integer or \<open>None\<close>.
\<close>

datatype reddit_value = RedditDict reddit_result | RedditInt int

record trend_result =
  max_score :: int
  avg_score :: int
  min_score :: int
  trend_direction :: string
  total_days :: nat
  timeframe :: string
  daily_data :: "(string \<times> int) list"

datatype trends_value = TrendsDict trend_result | TrendsInt int

text \<open>The three shapes of \<open>gt_data\<close> when it is a dictionary, and its \<open>max_score\<close> entry.\<close>

datatype gt_dict = FullTrend trend_result | SimpleScore int | TrendError string

fun get_max_score :: "gt_dict \<Rightarrow> int option" where
  "get_max_score (FullTrend d) = Some (max_score d)"
| "get_max_score (SimpleScore n) = Some n"
| "get_max_score (TrendError e) = None"

text \<open>
  The report, without the two entries read from the clock after the fetches
  (\<open>collected_at\<close> and the search duration).
\<close>

record report =
  rp_keyword :: string
  eventbrite_events :: "int option"
  reddit_mentions :: "int option"
  google_trends_score :: "int option"
  detailed_eventbrite :: eventbrite_result
  detailed_reddit :: reddit_value
  detailed_google_trends :: "gt_dict option"
  rp_date :: string
  date_range :: string
  sources_attempted :: "string list"
  sources_successful :: "string list"

definition eventbrite_step :: "eventbrite_result outcome \<Rightarrow> int option \<times> eventbrite_result" where
  "eventbrite_step r =
     (case r of
        Returned eb_data \<Rightarrow> (Some (int (er_count eb_data)), eb_data)
      | Raised e \<Rightarrow>
          (None, \<lparr>er_count = 0, er_events = [], er_source = None, er_selector_used = None,
                  er_total_events_found = None, er_relevance_threshold = None,
                  er_error = Some e\<rparr>))"

definition reddit_step :: "reddit_value outcome \<Rightarrow> int option \<times> reddit_value" where
  "reddit_step r =
     (case r of
        Returned (RedditDict reddit_data) \<Rightarrow>
          (Some (int (rr_count reddit_data)), RedditDict reddit_data)
      | Returned (RedditInt n) \<Rightarrow> (Some n, RedditInt n)
      | Raised e \<Rightarrow>
          (Some 0,
           RedditDict \<lparr>rr_count = 0, rr_posts = [], rr_in_date_range = None, rr_source = None,
                       rr_total_posts_found = None, rr_posts_in_date_range = None,
                       rr_relevance_threshold = None, rr_error = Some e\<rparr>))"

definition trends_step :: "trends_value option outcome \<Rightarrow> gt_dict option" where
  "trends_step r =
     (case r of
        Returned (Some (TrendsDict gt_raw)) \<Rightarrow> Some (FullTrend gt_raw)
      | Returned (Some (TrendsInt gt_raw)) \<Rightarrow> Some (SimpleScore gt_raw)
      | Returned None \<Rightarrow> None
      | Raised e \<Rightarrow> Some (TrendError e))"

definition build_report ::
  "string \<Rightarrow> datetime \<Rightarrow> datetime \<Rightarrow> eventbrite_result outcome \<Rightarrow> reddit_value outcome
     \<Rightarrow> trends_value option outcome \<Rightarrow> report" where
  "build_report keyword start end eb rd gt =
     (let (eb_count, eb_data) = eventbrite_step eb;
          (reddit_count, reddit_data) = reddit_step rd;
          gt_data = trends_step gt
      in \<lparr>rp_keyword = keyword,
          eventbrite_events = eb_count,
          reddit_mentions = reddit_count,
          google_trends_score = (case gt_data of Some d \<Rightarrow> get_max_score d | None \<Rightarrow> None),
          detailed_eventbrite = eb_data,
          detailed_reddit = reddit_data,
          detailed_google_trends = gt_data,
          rp_date = strftime_date start,
          date_range = strftime_date start @ '' to '' @ strftime_date end,
          sources_attempted = [''eventbrite'', ''reddit'', ''google_trends''],
          sources_successful =
            map fst (filter snd [(''eventbrite'', eb_count \<noteq> None),
                                 (''reddit'', reddit_count \<noteq> None),
                                 (''google_trends'', gt_data \<noteq> None)])\<rparr>)"

text \<open>
  The entry point: the output path, then the date argument (a malformed one ends the
  run before any fetch), then the three fetches and the report.
\<close>

definition main ::
  "string \<Rightarrow> string \<Rightarrow> string option \<Rightarrow> datetime \<Rightarrow> eventbrite_result outcome
     \<Rightarrow> reddit_value outcome \<Rightarrow> trends_value option outcome \<Rightarrow> py_error + (string \<times> report)" where
  "main keyword date out current_time eb rd gt =
     (let output_path =
            (case out of
               None \<Rightarrow> ''Results/'' @ create_output_filename keyword current_time
             | Some path \<Rightarrow> path)
      in case parse_date_input date of
           Inl e \<Rightarrow> Inl e
         | Inr (start, end) \<Rightarrow> Inr (output_path, build_report keyword start end eb rd gt))"



text \<open>\<open>datetime(y, m, d, hh, mm, ss)\<close>.\<close>

definition datetime_at :: "nat \<Rightarrow> nat \<Rightarrow> nat \<Rightarrow> nat \<Rightarrow> nat \<Rightarrow> nat \<Rightarrow> datetime" where
  "datetime_at y m d hh mm ss =
     \<lparr>year = y, month = m, day = d, hour = hh, minute = mm, second = ss, microsecond = 0\<rparr>"

section \<open>Sample inputs\<close>

text \<open>
  An environment with credentials and the client library, whose search gives a fixed
  outcome; a submission with a given title and creation time; a page on which only the
  first selector matches.
\<close>

definition sample_env :: "submission list outcome \<Rightarrow> reddit_env" where
  "sample_env result =
     \<lparr>reddit_client_id = Some ''id'', reddit_client_secret = Some ''secret'',
      reddit_user_agent = Some ''agent'', praw = True, search = (\<lambda>keyword. result)\<rparr>"

definition sample_submission :: "string \<Rightarrow> int \<Rightarrow> submission" where
  "sample_submission t created =
     \<lparr>sub_title = t, sub_subreddit = ''london'', sub_author = None, sub_score = 12,
      sub_num_comments = 3, sub_created_utc = created, sub_permalink = ''/r/london/1''\<rparr>"

definition sample_card :: "string \<Rightarrow> raw_card extraction" where
  "sample_card t =
     Extracted \<lparr>card_title = t, card_date_text = ''Sat 4 May'', card_location = ''London'',
                card_href = ''/e/1''\<rparr>"

definition sample_get :: "raw_card extraction list \<Rightarrow> string \<Rightarrow> http_outcome" where
  "sample_get cards url =
     Page \<lparr>select = (\<lambda>selector. if selector = hd selectors then cards else []),
           event_links = []\<rparr>"

section \<open>Properties of the text primitives\<close>

lemma contains_iff_sublist: "contains sub s \<longleftrightarrow> sublist sub s"
  by (induction s) (auto simp: sublist_Cons_right)

lemma contains_Nil [simp]: "contains [] s"
  by (simp add: contains_iff_sublist)

lemma fold_add_35_shift:
  "fold (\<lambda>word score. if P word then score + 35 else score) ws (a :: int)
     = a + fold (\<lambda>word score. if P word then score + 35 else score) ws 0"
proof (induction ws arbitrary: a)
  case Nil
  show ?case by simp
next
  case (Cons w ws)
  show ?case
    using Cons.IH [of "a + 35"] Cons.IH [of 35] Cons.IH [of a] by simp
qed

lemma fold_add_35_nonneg:
  "0 \<le> fold (\<lambda>word score. if P word then score + 35 else score) ws (0 :: int)"
proof (induction ws)
  case Nil
  show ?case by simp
next
  case (Cons w ws)
  show ?case
    using Cons.IH fold_add_35_shift [of P ws 35] by simp
qed

lemma unclamped_score_steps:
  "unclamped_score title keyword =
     exact_match_points (lower title) (lower keyword)
       + word_match_points (lower title) (lower keyword)
       + event_bonus_points (lower title)"
  unfolding unclamped_score_def exact_match_points_def word_match_points_def
    event_bonus_points_def Let_def
  using fold_add_35_shift [of "\<lambda>word. contains word (lower title)" "str_split (lower keyword)" 100]
  by simp

lemma lower_Nil: "lower [] = []"
  by (simp add: lower_def)

lemma str_split_Nil: "str_split [] = []"
  by (simp add: str_split_def)

lemma event_bonus_points_cases:
  "event_bonus_points t = 0 \<or> event_bonus_points t = 20"
  by (simp add: event_bonus_points_def)

lemma word_match_points_nonneg: "0 \<le> word_match_points t k"
  unfolding word_match_points_def by (rule fold_add_35_nonneg)

section \<open>Properties of the relevance score\<close>

text \<open>
  C5. For every text and keyword, the empty strings included, the score returned by
  \<open>calculate_relevance_score\<close> is an integer between 0 and 100, both ends included.
\<close>

theorem calculate_relevance_score_range:
  "0 \<le> calculate_relevance_score title keyword
     \<and> calculate_relevance_score title keyword \<le> 100"
  by (simp add: calculate_relevance_score_def)

text \<open>
  C2, as stated, fails. With the empty keyword and the text \<open>hello\<close>, which holds no
  event term, the full-keyword test of step 2 contributes 100 points, and the score
  returned is not the one that step 4 alone would give.
\<close>

theorem empty_keyword_counterexample:
  "exact_match_points (lower ''hello'') (lower []) \<noteq> 0
     \<and> calculate_relevance_score ''hello'' []
         \<noteq> max 0 (min (event_bonus_points (lower ''hello'')) 100)"
  by code_simp

text \<open>
  C2, amended. For every text, the score against the empty keyword is 100: the empty
  keyword occurs in every text, so step 2 adds 100; the empty keyword has no tokens, so
  step 3 adds nothing; step 4 adds 0 or 20 and the total is clamped to 100.
\<close>

theorem empty_keyword_score:
  "exact_match_points (lower title) (lower []) = 100
     \<and> word_match_points (lower title) (lower []) = 0
     \<and> calculate_relevance_score title [] = 100"
proof -
  have e: "exact_match_points (lower title) (lower []) = 100"
    by (simp add: exact_match_points_def lower_Nil)
  have w: "word_match_points (lower title) (lower []) = 0"
    by (simp add: word_match_points_def lower_Nil str_split_Nil)
  have "unclamped_score title [] = 100 + event_bonus_points (lower title)"
    using e w by (simp add: unclamped_score_steps)
  then have "calculate_relevance_score title [] = 100"
    using event_bonus_points_cases [of "lower title"]
    by (auto simp: calculate_relevance_score_def)
  with e w show ?thesis by simp
qed

text \<open>
  C6. For every text and every non-empty keyword whose lower-case form occurs in the
  lower-case text, the score is at least 100 before clamping, the score returned is
  exactly 100, and it reaches the relevance threshold of 90.
\<close>

theorem substring_match_scores_100:
  assumes "keyword \<noteq> []" and "contains (lower keyword) (lower title)"
  shows "100 \<le> unclamped_score title keyword
           \<and> calculate_relevance_score title keyword = 100
           \<and> 90 \<le> calculate_relevance_score title keyword"
proof -
  have "exact_match_points (lower title) (lower keyword) = 100"
    using assms(2) by (simp add: exact_match_points_def)
  moreover have "0 \<le> event_bonus_points (lower title)"
    by (simp add: event_bonus_points_def)
  ultimately have "100 \<le> unclamped_score title keyword"
    using word_match_points_nonneg [of "lower title" "lower keyword"]
    by (simp add: unclamped_score_steps)
  then show ?thesis by (simp add: calculate_relevance_score_def)
qed

text \<open>
  C6 at a concrete input: the keyword \<open>Swift\<close> occurs, up to case, in the title
  \<open>An evening with Taylor SWIFT\<close>.
\<close>

theorem substring_match_scores_100_witness:
  "''Swift'' \<noteq> [] \<and> contains (lower ''Swift'') (lower ''An evening with Taylor SWIFT'')
     \<and> 100 \<le> unclamped_score ''An evening with Taylor SWIFT'' ''Swift''
     \<and> calculate_relevance_score ''An evening with Taylor SWIFT'' ''Swift'' = 100"
proof -
  have h1: "''Swift'' \<noteq> []" by simp
  have h2: "contains (lower ''Swift'') (lower ''An evening with Taylor SWIFT'')" by code_simp
  from substring_match_scores_100 [OF h1 h2] h1 h2 show ?thesis by simp
qed

section \<open>Properties of the adapters\<close>

lemma in_range_submissions_empty_iff:
  "in_range_submissions start_ts end_ts submissions = [] \<longleftrightarrow>
     (\<forall>s \<in> set submissions. \<not> (start_ts \<le> sub_created_utc s \<and> sub_created_utc s \<le> end_ts))"
  by (simp add: in_range_submissions_def filter_empty_conv)

lemma post_in_date_range_detailed_post:
  "post_in_date_range (detailed_post keyword start_ts end_ts s)
     = (start_ts \<le> sub_created_utc s \<and> sub_created_utc s \<le> end_ts)"
  by (simp add: detailed_post_def)

lemma detailed_posts_none_in_range:
  assumes "in_range_submissions start_ts end_ts submissions = []"
  shows "detailed_posts keyword start_ts end_ts submissions
           = map (detailed_post keyword start_ts end_ts) (take 10 submissions)"
    and "filter post_in_date_range (detailed_posts keyword start_ts end_ts submissions) = []"
proof -
  show eq: "detailed_posts keyword start_ts end_ts submissions
           = map (detailed_post keyword start_ts end_ts) (take 10 submissions)"
    using assms by (simp add: detailed_posts_def)
  have "\<forall>s \<in> set (take 10 submissions).
          \<not> (start_ts \<le> sub_created_utc s \<and> sub_created_utc s \<le> end_ts)"
    using assms in_range_submissions_empty_iff [of start_ts end_ts submissions]
    by (meson in_set_takeD)
  then show "filter post_in_date_range (detailed_posts keyword start_ts end_ts submissions) = []"
    unfolding eq by (simp add: filter_empty_conv post_in_date_range_detailed_post)
qed

lemma fetch_reddit_mentions_raised:
  assumes "search env keyword = Raised e"
  shows "fetch_reddit_mentions env keyword start_ts end_ts = no_api_result"
  using assms by (simp add: fetch_reddit_mentions_def)

lemma fetch_reddit_mentions_none_in_range:
  assumes "truthy (reddit_client_id env)" and "truthy (reddit_client_secret env)"
    and "praw env" and "search env keyword = Returned submissions"
    and "in_range_submissions start_ts end_ts submissions = []"
  shows "fetch_reddit_mentions env keyword start_ts end_ts =
           \<lparr>rr_count = 0, rr_posts = [], rr_in_date_range = Some 0,
            rr_source = Some ''reddit_api'',
            rr_total_posts_found = Some (min 10 (length submissions)),
            rr_posts_in_date_range = None,
            rr_relevance_threshold = Some 90, rr_error = None\<rparr>"
  using assms detailed_posts_none_in_range(1) [OF assms(5), of keyword]
  by (simp add: fetch_reddit_mentions_def min.commute)

lemma sample_env_credentials:
  "truthy (reddit_client_id (sample_env result))"
  "truthy (reddit_client_secret (sample_env result))"
  "praw (sample_env result)"
  "search (sample_env result) keyword = result"
  by (simp_all add: sample_env_def truthy_def)

text \<open>
  C3, as stated, fails. With credentials present and a search that raises, the result
  the discussion adapter returns has no error entry.
\<close>

theorem reddit_search_error_counterexample:
  "rr_error (fetch_reddit_mentions (sample_env (Raised ''received 503 HTTP response''))
       ''glastonbury'' 1714521600 1714608000) = None"
  by (simp add: fetch_reddit_mentions_def sample_env_def truthy_def no_api_result_def)

text \<open>
  C3, amended. For every keyword and timestamp range, when credentials and the client
  library are present and the search raises, the adapter returns (the exception does
  not leave it) the result with count 0, no posts, \<open>in_date_range\<close> 0 and the source tag
  \<open>no_api\<close>; the result has no error entry.
\<close>

theorem reddit_search_error_result:
  assumes "truthy (reddit_client_id env)" and "truthy (reddit_client_secret env)"
    and "praw env" and "search env keyword = Raised e"
  shows "fetch_reddit_mentions env keyword start_ts end_ts =
           \<lparr>rr_count = 0, rr_posts = [], rr_in_date_range = Some 0,
            rr_source = Some ''no_api'', rr_total_posts_found = None,
            rr_posts_in_date_range = None, rr_relevance_threshold = None,
            rr_error = None\<rparr>"
  using fetch_reddit_mentions_raised [OF assms(4)] by (simp add: no_api_result_def)

text \<open>
  C3, amended, at a concrete input: a search that raises on the keyword
  \<open>glastonbury\<close>.
\<close>

theorem reddit_search_error_result_witness:
  "truthy (reddit_client_id (sample_env (Raised ''received 503 HTTP response'')))
     \<and> search (sample_env (Raised ''received 503 HTTP response'')) ''glastonbury''
         = Raised ''received 503 HTTP response''
     \<and> rr_count (fetch_reddit_mentions (sample_env (Raised ''received 503 HTTP response''))
          ''glastonbury'' 1714521600 1714608000) = 0
     \<and> rr_source (fetch_reddit_mentions (sample_env (Raised ''received 503 HTTP response''))
          ''glastonbury'' 1714521600 1714608000) = Some ''no_api''"
proof -
  let ?env = "sample_env (Raised ''received 503 HTTP response'')"
  have c: "truthy (reddit_client_id ?env)"
    by (rule sample_env_credentials)
  have s: "search ?env ''glastonbury'' = Raised ''received 503 HTTP response''"
    by (rule sample_env_credentials)
  from reddit_search_error_result [OF c sample_env_credentials(2,3) s,
      where start_ts = 1714521600 and end_ts = 1714608000] c s
  show ?thesis by simp
qed

text \<open>
  C4. For every keyword and timestamp range, when credentials are present and no
  fetched submission was created within the range, the adapter returns count 0 and
  no posts, whatever the submissions outside the range score.
\<close>

theorem reddit_empty_when_none_in_range:
  assumes "truthy (reddit_client_id env)" and "truthy (reddit_client_secret env)"
    and "praw env" and "search env keyword = Returned submissions"
    and "\<forall>s \<in> set submissions.
           \<not> (start_ts \<le> sub_created_utc s \<and> sub_created_utc s \<le> end_ts)"
  shows "rr_count (fetch_reddit_mentions env keyword start_ts end_ts) = 0
           \<and> rr_posts (fetch_reddit_mentions env keyword start_ts end_ts) = []"
proof -
  have "in_range_submissions start_ts end_ts submissions = []"
    using assms(5) by (simp add: in_range_submissions_empty_iff)
  from fetch_reddit_mentions_none_in_range [OF assms(1-4) this]
  show ?thesis by simp
qed

text \<open>
  C4 at a concrete input: the only submission fetched scores at least 90 and lies
  before the range; it is not returned.
\<close>

theorem reddit_empty_when_none_in_range_witness:
  "90 \<le> calculate_relevance_score
           (sub_title (sample_submission ''Glastonbury Festival tickets'' 1700000000))
           ''glastonbury''
     \<and> \<not> (1714521600 \<le> sub_created_utc (sample_submission ''Glastonbury Festival tickets'' 1700000000))
     \<and> rr_count (fetch_reddit_mentions
           (sample_env (Returned [sample_submission ''Glastonbury Festival tickets'' 1700000000]))
           ''glastonbury'' 1714521600 1714608000) = 0
     \<and> rr_posts (fetch_reddit_mentions
           (sample_env (Returned [sample_submission ''Glastonbury Festival tickets'' 1700000000]))
           ''glastonbury'' 1714521600 1714608000) = []"
proof -
  let ?sub = "sample_submission ''Glastonbury Festival tickets'' 1700000000"
  have score: "90 \<le> calculate_relevance_score (sub_title ?sub) ''glastonbury''"
    by code_simp
  have off: "\<not> (1714521600 \<le> sub_created_utc ?sub)"
    by (simp add: sample_submission_def)
  then have none: "\<forall>s \<in> set [?sub].
      \<not> (1714521600 \<le> sub_created_utc s \<and> sub_created_utc s \<le> 1714608000)"
    by simp
  from reddit_empty_when_none_in_range [OF sample_env_credentials none, of "''glastonbury''"]
    score off
  show ?thesis by simp
qed

text \<open>
  C10. When no fetched submission was created within the range, the detailed records
  are built from the first ten submissions only, so the \<open>total_posts_found\<close> of the
  result is the smaller of 10 and the number of submissions fetched; it is 10 when more
  than ten were fetched.
\<close>

theorem reddit_total_posts_found_capped:
  assumes "truthy (reddit_client_id env)" and "truthy (reddit_client_secret env)"
    and "praw env" and "search env keyword = Returned submissions"
    and "\<forall>s \<in> set submissions.
           \<not> (start_ts \<le> sub_created_utc s \<and> sub_created_utc s \<le> end_ts)"
  shows "rr_total_posts_found (fetch_reddit_mentions env keyword start_ts end_ts)
           = Some (min 10 (length submissions))
         \<and> built_posts env keyword start_ts end_ts
           = map (detailed_post keyword start_ts end_ts) (take 10 submissions)
         \<and> (10 < length submissions \<longrightarrow>
              rr_total_posts_found (fetch_reddit_mentions env keyword start_ts end_ts) = Some 10)"
proof -
  have e: "in_range_submissions start_ts end_ts submissions = []"
    using assms(5) by (simp add: in_range_submissions_empty_iff)
  have "built_posts env keyword start_ts end_ts
          = map (detailed_post keyword start_ts end_ts) (take 10 submissions)"
    using assms(1-4) detailed_posts_none_in_range(1) [OF e, of keyword]
    by (simp add: built_posts_def)
  with fetch_reddit_mentions_none_in_range [OF assms(1-4) e]
  show ?thesis by simp
qed

text \<open>
  C10 at a concrete input: twelve submissions outside the range are fetched and
  \<open>total_posts_found\<close> is 10.
\<close>

theorem reddit_total_posts_found_capped_witness:
  "length (replicate 12 (sample_submission ''Glastonbury'' 1700000000)) = 12
     \<and> rr_total_posts_found (fetch_reddit_mentions
           (sample_env (Returned (replicate 12 (sample_submission ''Glastonbury'' 1700000000))))
           ''glastonbury'' 1714521600 1714608000) = Some 10"
proof -
  let ?subs = "replicate 12 (sample_submission ''Glastonbury'' 1700000000)"
  have none: "\<forall>s \<in> set ?subs.
      \<not> (1714521600 \<le> sub_created_utc s \<and> sub_created_utc s \<le> 1714608000)"
    by (simp add: sample_submission_def)
  have len: "10 < length ?subs" by simp
  from reddit_total_posts_found_capped [OF sample_env_credentials none, of "''glastonbury''"] len
  show ?thesis by simp
qed

lemma fetch_eventbrite_scrape_events:
  "er_events (fetch_eventbrite_scrape get keyword)
     = filter (\<lambda>e. 90 \<le> ev_relevance_score e) (extracted_events get keyword)"
  by (simp add: fetch_eventbrite_scrape_def extracted_events_def Let_def
      split: option.splits prod.splits)

lemma fetch_eventbrite_scrape_count:
  "er_count (fetch_eventbrite_scrape get keyword)
     = length (er_events (fetch_eventbrite_scrape get keyword))"
  by (simp add: fetch_eventbrite_scrape_def Let_def split: option.splits prod.splits)

lemma fetch_reddit_mentions_count:
  "rr_count (fetch_reddit_mentions env keyword start_ts end_ts)
     = length (rr_posts (fetch_reddit_mentions env keyword start_ts end_ts))"
  by (simp add: fetch_reddit_mentions_def no_api_result_def Let_def split: outcome.splits)

lemma fetch_reddit_mentions_posts:
  "rr_posts (fetch_reddit_mentions env keyword start_ts end_ts)
     = filter (\<lambda>p. 90 \<le> post_relevance_score p)
         (filter post_in_date_range (built_posts env keyword start_ts end_ts))"
proof (cases "truthy (reddit_client_id env) \<and> truthy (reddit_client_secret env) \<and> praw env")
  case False
  have "fetch_reddit_mentions env keyword start_ts end_ts = no_api_result"
    unfolding fetch_reddit_mentions_def by (rule if_not_P [OF False])
  moreover have "built_posts env keyword start_ts end_ts = []"
    unfolding built_posts_def by (rule if_not_P [OF False])
  ultimately show ?thesis
    by (simp add: no_api_result_def)
next
  case creds: True
  show ?thesis
  proof (cases "search env keyword")
    case (Raised e)
    with creds show ?thesis
      by (simp add: fetch_reddit_mentions_def built_posts_def no_api_result_def)
  next
    case (Returned submissions)
    show ?thesis
    proof (cases "in_range_submissions start_ts end_ts submissions = []")
      case True
      with creds Returned detailed_posts_none_in_range(2) [OF True, of keyword]
      show ?thesis
        by (simp add: fetch_reddit_mentions_def built_posts_def)
    next
      case False
      with creds Returned show ?thesis
        by (simp add: fetch_reddit_mentions_def built_posts_def Let_def)
    qed
  qed
qed

text \<open>
  C7. In every result of the event-listing adapter and of the discussion adapter the
  count is the length of the returned items, and the returned items are the extracted
  candidates that score at least 90, among those eligible: all the extracted events,
  and the detailed posts that lie in the date range.
\<close>

theorem count_equals_filtered_items:
  "er_count (fetch_eventbrite_scrape get keyword)
       = length (er_events (fetch_eventbrite_scrape get keyword))
     \<and> er_events (fetch_eventbrite_scrape get keyword)
       = filter (\<lambda>e. 90 \<le> ev_relevance_score e) (extracted_events get keyword)
     \<and> rr_count (fetch_reddit_mentions env keyword start_ts end_ts)
       = length (rr_posts (fetch_reddit_mentions env keyword start_ts end_ts))
     \<and> rr_posts (fetch_reddit_mentions env keyword start_ts end_ts)
       = filter (\<lambda>p. 90 \<le> post_relevance_score p)
           (filter post_in_date_range (built_posts env keyword start_ts end_ts))"
  using fetch_eventbrite_scrape_count [of get keyword]
    fetch_eventbrite_scrape_events [of get keyword]
    fetch_reddit_mentions_count [of env keyword start_ts end_ts]
    fetch_reddit_mentions_posts [of env keyword start_ts end_ts]
  by simp

section \<open>Properties of the entry point\<close>


text \<open>
  C9. For the keyword \<open>Taylor Swift!!\<close> and the time 2024-05-01 13:05:09 the output
  file name is \<open>taylor_swift_20240501_130509_search_output.json\<close>.
\<close>

theorem create_output_filename_example:
  "create_output_filename ''Taylor Swift!!'' (datetime_at 2024 5 1 13 5 9)
     = ''taylor_swift_20240501_130509_search_output.json''"
  by code_simp




lemma reddit_step_Some: "fst (reddit_step rd) \<noteq> None"
  by (simp add: reddit_step_def split: outcome.splits reddit_value.splits)





text \<open>
  C7 at a concrete input: a page with five cards of which two match the keyword gives
  count 2 out of 5 events found.
\<close>

theorem count_equals_filtered_items_witness:
  "er_count (fetch_eventbrite_scrape
       (sample_get [sample_card ''Glastonbury Festival 2024'', sample_card ''Pottery class'',
                    sample_card ''Road to GLASTONBURY'', sample_card ''Quiz night'',
                    sample_card ''Live jazz''])
       ''glastonbury'')
     = length (er_events (fetch_eventbrite_scrape
       (sample_get [sample_card ''Glastonbury Festival 2024'', sample_card ''Pottery class'',
                    sample_card ''Road to GLASTONBURY'', sample_card ''Quiz night'',
                    sample_card ''Live jazz''])
       ''glastonbury''))
   \<and> er_count (fetch_eventbrite_scrape
       (sample_get [sample_card ''Glastonbury Festival 2024'', sample_card ''Pottery class'',
                    sample_card ''Road to GLASTONBURY'', sample_card ''Quiz night'',
                    sample_card ''Live jazz''])
       ''glastonbury'') = 2
   \<and> er_total_events_found (fetch_eventbrite_scrape
       (sample_get [sample_card ''Glastonbury Festival 2024'', sample_card ''Pottery class'',
                    sample_card ''Road to GLASTONBURY'', sample_card ''Quiz night'',
                    sample_card ''Live jazz''])
       ''glastonbury'') = Some 5"
proof -
  let ?get = "sample_get [sample_card ''Glastonbury Festival 2024'', sample_card ''Pottery class'',
                    sample_card ''Road to GLASTONBURY'', sample_card ''Quiz night'',
                    sample_card ''Live jazz'']"
  have n: "er_count (fetch_eventbrite_scrape ?get ''glastonbury'') = 2"
    by code_simp
  have t: "er_total_events_found (fetch_eventbrite_scrape ?get ''glastonbury'') = Some 5"
    by code_simp
  have a: "er_count (fetch_eventbrite_scrape ?get ''glastonbury'')
             = length (er_events (fetch_eventbrite_scrape ?get ''glastonbury''))"
    by (rule count_equals_filtered_items [THEN conjunct1])
  from a n t show ?thesis by blast
qed

end
